theory Spec2Isabelle
  imports Main "HOL-Library.Word"
begin

section \<open>Allocator adapters over a single host reallocation callback\<close>

text \<open>
  A shallow embedding of \<^verbatim>\<open>libs/glm-binding/allocator.hpp\<close>: the two allocator
  templates \<^verbatim>\<open>LuaCrtAllocator<T>\<close> (caches the callback and its opaque pointer) and
  \<^verbatim>\<open>InternalLuaCrtAllocator<T>\<close> (keeps the address of the live \<^verbatim>\<open>global_State\<close>).

  \<^item> \<^verbatim>\<open>std::size_t\<close> is a word of any width \<open>'w\<close>; \<open>*\<close> wraps and \<open>div\<close> is the unsigned
    division, as in C++.
  \<^item> The template parameter \<^verbatim>\<open>T\<close> enters the code only as \<^verbatim>\<open>sizeof(T)\<close>, so every
    member function takes that size as its first argument \<open>sz\<close>. A typed pointer
    \<^verbatim>\<open>T *\<close> and the \<^verbatim>\<open>void *\<close> it is cast from are the same address.
  \<^item> Pointers are addresses, \<open>0\<close> being \<^verbatim>\<open>nullptr\<close>. A function pointer is the address
    of a function; the world says what the function at an address does.
  \<^item> A member function returns its result, the object \<^verbatim>\<open>*this\<close> as it is left
    by the call, and the world as it is left by the call.
  \<^item> A thrown \<^verbatim>\<open>std::bad_alloc\<close>, a call of \<^verbatim>\<open>std::terminate\<close> and a call through a null
    function pointer are values of the type \<open>error\<close>.
  \<^item> The \<^verbatim>\<open>report\<close> member exists only under \<^verbatim>\<open>LUA_ALLOC_DEBUG\<close>, which the header
    does not define; it prints and returns nothing, and is left out.
\<close>

subsection \<open>Pointers, sizes and the host callback\<close>

type_synonym ptr = nat
type_synonym lua_Alloc = nat
type_synonym lua_State_ptr = nat
type_synonym global_State_ptr = nat

abbreviation (input) nullptr :: nat where
  "nullptr \<equiv> 0"

text \<open>
  Modelled from the spec: the type \<^verbatim>\<open>lua_Alloc\<close> is declared in \<^verbatim>\<open>lua.h\<close>, which is not
  part of the sources at hand. The host callback takes the opaque pointer, the existing
  block or null, the old size and the new size in bytes, and returns a block or null. It
  is a C function: it returns and does not throw. What it reads and changes is the host's
  own memory \<open>'h\<close>.
\<close>

type_synonym ('w, 'h) hostfn = "ptr \<Rightarrow> ptr \<Rightarrow> 'w word \<Rightarrow> 'w word \<Rightarrow> 'h \<Rightarrow> ptr \<times> 'h"

text \<open>One invocation of a host callback: the function called and its four arguments.\<close>

record (overloaded) ('w :: len) call =
  c_fn :: lua_Alloc
  c_ud :: ptr
  c_block :: ptr
  c_osize :: "'w word"
  c_nsize :: "'w word"

text \<open>
  Modelled from the spec: \<^verbatim>\<open>global_State\<close> is declared in \<^verbatim>\<open>lstate.h\<close>, which is not
  part of the sources at hand. It is the host's live state record; the two fields the
  header reads are the callback \<^verbatim>\<open>frealloc\<close> and the opaque pointer \<^verbatim>\<open>ud\<close>.
\<close>

record global_State =
  frealloc :: lua_Alloc
  ud :: ptr

text \<open>
  The world outside the allocator objects: the functions that function pointers point to,
  the \<^verbatim>\<open>l_G\<close> field of every \<^verbatim>\<open>lua_State\<close>, the \<^verbatim>\<open>global_State\<close> record at every
  address, the memory of the host, and the log of the host callback invocations made so
  far, oldest first.
\<close>

record (overloaded) ('w :: len, 'h) world =
  code :: "lua_Alloc \<Rightarrow> ('w, 'h) hostfn"
  l_G :: "lua_State_ptr \<Rightarrow> global_State_ptr"
  gstates :: "global_State_ptr \<Rightarrow> global_State"
  host :: 'h
  calls :: "'w call list"

datatype error = bad_alloc | std_terminate | null_function_call

text \<open>What a \<^verbatim>\<open>catch (...)\<close> handler catches: exceptions only.\<close>

fun is_exception :: "error \<Rightarrow> bool" where
  "is_exception bad_alloc = True"
| "is_exception std_terminate = False"
| "is_exception null_function_call = False"

text \<open>
  The call \<^verbatim>\<open>f(ud, block, osize, nsize)\<close> through the function pointer \<open>f\<close>. A null \<open>f\<close>
  has no function to run. Otherwise the function at \<open>f\<close> runs once on the memory of the
  host, and the invocation is appended to the log.
\<close>

definition invoke ::
  "lua_Alloc \<Rightarrow> ptr \<Rightarrow> ptr \<Rightarrow> 'w word \<Rightarrow> 'w word \<Rightarrow> ('w :: len, 'h) world
     \<Rightarrow> (error + ptr) \<times> ('w, 'h) world" where
  "invoke f u block osize nsize w =
     (if f = nullptr then (Inl null_function_call, w)
      else (case code w f u block osize nsize (host w) of
              (p, h') \<Rightarrow>
                (Inr p,
                 w\<lparr>host := h',
                   calls := calls w @
                     [\<lparr>c_fn = f, c_ud = u, c_block = block, c_osize = osize, c_nsize = nsize\<rparr>]\<rparr>)))"

text \<open>
  Modelled from the spec: the macro \<^verbatim>\<open>G(L)\<close> of \<^verbatim>\<open>lstate.h\<close> yields the address of the
  live state record of a host handle.
\<close>

definition G :: "lua_State_ptr \<Rightarrow> ('w :: len, 'h) world \<Rightarrow> global_State_ptr" where
  "G L w = l_G w L"

text \<open>
  Modelled from the spec: \<^verbatim>\<open>lua_getallocf(L, &ud)\<close> of the host API, which is not part of
  the sources at hand, yields the current callback of the host handle and stores the
  current opaque pointer in \<^verbatim>\<open>ud\<close>. The pair is (callback, opaque pointer).
\<close>

definition lua_getallocf :: "lua_State_ptr \<Rightarrow> ('w :: len, 'h) world \<Rightarrow> lua_Alloc \<times> ptr" where
  "lua_getallocf L w = (frealloc (gstates w (G L w)), ud (gstates w (G L w)))"

text \<open>
  \<^verbatim>\<open>LUA_ALLOC_NOEXCEPT\<close> is \<^verbatim>\<open>noexcept\<close> when \<^verbatim>\<open>__cplusplus >= 201103L\<close> and empty
  otherwise. An exception that leaves a \<^verbatim>\<open>noexcept\<close> function calls \<^verbatim>\<open>std::terminate\<close>.
  The flag \<open>ne\<close> says which of the two the macro is.
\<close>

definition LUA_ALLOC_NOEXCEPT :: "bool \<Rightarrow> error \<Rightarrow> error" where
  "LUA_ALLOC_NOEXCEPT ne e = (if ne \<and> is_exception e then std_terminate else e)"

subsection \<open>\<^verbatim>\<open>LuaCrtAllocator\<close>: the caching adapter\<close>

record LuaCrtAllocator =
  l_alloc :: lua_Alloc
  l_ud :: ptr

text \<open>\<^verbatim>\<open>LuaCrtAllocator() = default\<close>: both members keep their initialiser \<^verbatim>\<open>nullptr\<close>.\<close>

definition LuaCrtAllocator_default :: LuaCrtAllocator where
  "LuaCrtAllocator_default = \<lparr>l_alloc = nullptr, l_ud = nullptr\<rparr>"

text \<open>\<^verbatim>\<open>LuaCrtAllocator(lua_State *L)\<close>.\<close>

definition LuaCrtAllocator_of_state ::
  "lua_State_ptr \<Rightarrow> ('w :: len, 'h) world \<Rightarrow> LuaCrtAllocator" where
  "LuaCrtAllocator_of_state L w =
     (case lua_getallocf L w of (f, u) \<Rightarrow> \<lparr>l_alloc = f, l_ud = u\<rparr>)"

text \<open>\<^verbatim>\<open>LuaCrtAllocator(const LuaCrtAllocator<U> &o)\<close>.\<close>

definition LuaCrtAllocator_rebind :: "LuaCrtAllocator \<Rightarrow> LuaCrtAllocator" where
  "LuaCrtAllocator_rebind other = \<lparr>l_alloc = l_alloc other, l_ud = l_ud other\<rparr>"

text \<open>
  \<^verbatim>\<open>Validate\<close> assigns both (mutable) members and returns \<^verbatim>\<open>*this\<close>: the value is the
  object as the call leaves it. The world is only read.
\<close>

definition LuaCrtAllocator_Validate ::
  "LuaCrtAllocator \<Rightarrow> lua_State_ptr \<Rightarrow> ('w :: len, 'h) world \<Rightarrow> LuaCrtAllocator" where
  "LuaCrtAllocator_Validate this L w =
     (case lua_getallocf L w of (f, u) \<Rightarrow> this\<lparr>l_alloc := f, l_ud := u\<rparr>)"

definition LuaCrtAllocator_realloc ::
  "LuaCrtAllocator \<Rightarrow> ptr \<Rightarrow> 'w word \<Rightarrow> 'w word \<Rightarrow> ('w :: len, 'h) world
     \<Rightarrow> (error + ptr) \<times> LuaCrtAllocator \<times> ('w, 'h) world" where
  "LuaCrtAllocator_realloc this block osize nsize w =
     (if l_alloc this = nullptr then (Inl bad_alloc, this, w)
      else (case invoke (l_alloc this) (l_ud this) block osize nsize w of
              (r, w') \<Rightarrow> (r, this, w')))"

text \<open>
  \<^verbatim>\<open>allocate\<close>: inside the \<^verbatim>\<open>try\<close>, the guard, the call and the test of the pointer; the
  handler \<^verbatim>\<open>catch (...)\<close> is empty, so a caught exception falls through to the final
  \<^verbatim>\<open>throw std::bad_alloc()\<close>, as do a failed guard and a null pointer.
\<close>

definition LuaCrtAllocator_allocate ::
  "'w word \<Rightarrow> LuaCrtAllocator \<Rightarrow> 'w word \<Rightarrow> ('w :: len, 'h) world
     \<Rightarrow> (error + ptr) \<times> LuaCrtAllocator \<times> ('w, 'h) world" where
  "LuaCrtAllocator_allocate sz this n w =
     (if n \<le> (- 1) div sz then
        (case LuaCrtAllocator_realloc this nullptr 0 (n * sz) w of
           (Inr p, this', w') \<Rightarrow>
             if p \<noteq> nullptr then (Inr p, this', w') else (Inl bad_alloc, this', w')
         | (Inl e, this', w') \<Rightarrow>
             if is_exception e then (Inl bad_alloc, this', w') else (Inl e, this', w'))
      else (Inl bad_alloc, this, w))"

text \<open>
  \<^verbatim>\<open>deallocate\<close> passes \<^verbatim>\<open>n\<close> itself as the old size and drops the pointer that
  \<^verbatim>\<open>realloc\<close> returns.
\<close>

definition LuaCrtAllocator_deallocate ::
  "bool \<Rightarrow> 'w word \<Rightarrow> LuaCrtAllocator \<Rightarrow> ptr \<Rightarrow> 'w word \<Rightarrow> ('w :: len, 'h) world
     \<Rightarrow> (error + unit) \<times> LuaCrtAllocator \<times> ('w, 'h) world" where
  "LuaCrtAllocator_deallocate ne sz this p n w =
     (case LuaCrtAllocator_realloc this p n 0 w of
        (Inr _, this', w') \<Rightarrow> (Inr (), this', w')
      | (Inl e, this', w') \<Rightarrow> (Inl (LUA_ALLOC_NOEXCEPT ne e), this', w'))"

text \<open>
  The two comparison operators are templates over the element types of both sides, here
  their sizes, and look at neither operand.
\<close>

definition LuaCrtAllocator_eq ::
  "'w :: len word \<Rightarrow> 'w word \<Rightarrow> LuaCrtAllocator \<Rightarrow> LuaCrtAllocator \<Rightarrow> bool" where
  "LuaCrtAllocator_eq szT szU a b = True"

definition LuaCrtAllocator_neq ::
  "'w :: len word \<Rightarrow> 'w word \<Rightarrow> LuaCrtAllocator \<Rightarrow> LuaCrtAllocator \<Rightarrow> bool" where
  "LuaCrtAllocator_neq szT szU a b = False"

subsection \<open>\<^verbatim>\<open>InternalLuaCrtAllocator\<close>: the direct adapter\<close>

text \<open>The member \<^verbatim>\<open>_G\<close> is written \<open>m_G\<close>.\<close>

record InternalLuaCrtAllocator =
  m_G :: global_State_ptr

definition InternalLuaCrtAllocator_default :: InternalLuaCrtAllocator where
  "InternalLuaCrtAllocator_default = \<lparr>m_G = nullptr\<rparr>"

text \<open>\<^verbatim>\<open>InternalLuaCrtAllocator(global_State *G)\<close>.\<close>

definition InternalLuaCrtAllocator_of_global :: "global_State_ptr \<Rightarrow> InternalLuaCrtAllocator" where
  "InternalLuaCrtAllocator_of_global g = \<lparr>m_G = g\<rparr>"

text \<open>\<^verbatim>\<open>InternalLuaCrtAllocator(lua_State *L)\<close>.\<close>

definition InternalLuaCrtAllocator_of_state ::
  "lua_State_ptr \<Rightarrow> ('w :: len, 'h) world \<Rightarrow> InternalLuaCrtAllocator" where
  "InternalLuaCrtAllocator_of_state L w = \<lparr>m_G = G L w\<rparr>"

definition InternalLuaCrtAllocator_rebind :: "InternalLuaCrtAllocator \<Rightarrow> InternalLuaCrtAllocator" where
  "InternalLuaCrtAllocator_rebind other = \<lparr>m_G = m_G other\<rparr>"

definition InternalLuaCrtAllocator_Access :: "InternalLuaCrtAllocator \<Rightarrow> InternalLuaCrtAllocator" where
  "InternalLuaCrtAllocator_Access this = this"

text \<open>
  \<^verbatim>\<open>realloc\<close> tests the address of the record, then reads \<^verbatim>\<open>frealloc\<close> and \<^verbatim>\<open>ud\<close> from
  the record at that address in the world of the call, and calls \<^verbatim>\<open>frealloc\<close> untested.
\<close>

definition InternalLuaCrtAllocator_realloc ::
  "InternalLuaCrtAllocator \<Rightarrow> ptr \<Rightarrow> 'w word \<Rightarrow> 'w word \<Rightarrow> ('w :: len, 'h) world
     \<Rightarrow> (error + ptr) \<times> InternalLuaCrtAllocator \<times> ('w, 'h) world" where
  "InternalLuaCrtAllocator_realloc this block osize nsize w =
     (if m_G this = nullptr then (Inl bad_alloc, this, w)
      else (case invoke (frealloc (gstates w (m_G this))) (ud (gstates w (m_G this)))
                   block osize nsize w of
              (r, w') \<Rightarrow> (r, this, w')))"

definition InternalLuaCrtAllocator_allocate ::
  "'w word \<Rightarrow> InternalLuaCrtAllocator \<Rightarrow> 'w word \<Rightarrow> ('w :: len, 'h) world
     \<Rightarrow> (error + ptr) \<times> InternalLuaCrtAllocator \<times> ('w, 'h) world" where
  "InternalLuaCrtAllocator_allocate sz this n w =
     (if n \<le> (- 1) div sz then
        (case InternalLuaCrtAllocator_realloc this nullptr 0 (n * sz) w of
           (Inr p, this', w') \<Rightarrow>
             if p \<noteq> nullptr then (Inr p, this', w') else (Inl bad_alloc, this', w')
         | (Inl e, this', w') \<Rightarrow>
             if is_exception e then (Inl bad_alloc, this', w') else (Inl e, this', w'))
      else (Inl bad_alloc, this, w))"

definition InternalLuaCrtAllocator_deallocate ::
  "bool \<Rightarrow> 'w word \<Rightarrow> InternalLuaCrtAllocator \<Rightarrow> ptr \<Rightarrow> 'w word \<Rightarrow> ('w :: len, 'h) world
     \<Rightarrow> (error + unit) \<times> InternalLuaCrtAllocator \<times> ('w, 'h) world" where
  "InternalLuaCrtAllocator_deallocate ne sz this p n w =
     (case InternalLuaCrtAllocator_realloc this p n 0 w of
        (Inr _, this', w') \<Rightarrow> (Inr (), this', w')
      | (Inl e, this', w') \<Rightarrow> (Inl (LUA_ALLOC_NOEXCEPT ne e), this', w'))"

definition InternalLuaCrtAllocator_eq ::
  "'w :: len word \<Rightarrow> 'w word \<Rightarrow> InternalLuaCrtAllocator \<Rightarrow> InternalLuaCrtAllocator \<Rightarrow> bool" where
  "InternalLuaCrtAllocator_eq szT szU a b = True"

definition InternalLuaCrtAllocator_neq ::
  "'w :: len word \<Rightarrow> 'w word \<Rightarrow> InternalLuaCrtAllocator \<Rightarrow> InternalLuaCrtAllocator \<Rightarrow> bool" where
  "InternalLuaCrtAllocator_neq szT szU a b = False"

subsection \<open>A host to run the adapters on\<close>

text \<open>
  A callback in the manner of the standard one of the host's auxiliary library: a request
  of new size 0 frees and returns null, any other request returns a block. The memory of
  this host is the last address it handed out; every block is a fresh address, so never
  null. \<open>l_fail\<close> is a callback that satisfies no request.
\<close>

definition l_std :: "('w :: len, nat) hostfn" where
  "l_std u block osize nsize h = (if nsize = 0 then (nullptr, h) else (Suc h, Suc h))"

definition l_fail :: "('w :: len, nat) hostfn" where
  "l_fail u block osize nsize h = (nullptr, h)"

text \<open>
  A 64-bit world with two hosts. The handle 11 has its record at address 100, with the
  callback at address 7 (\<open>l_std\<close>) and the opaque pointer 500; the handle 12 has its record at
  address 200, with the callback at address 8 (\<open>l_fail\<close>) and the opaque pointer 600. The
  record at address 300 holds a null callback.
\<close>

definition w0 :: "(64, nat) world" where
  "w0 = \<lparr>code = (\<lambda>f. if f = 7 then l_std else l_fail),
         l_G = (\<lambda>L. if L = 11 then 100 else 200),
         gstates = (\<lambda>g. if g = 100 then \<lparr>frealloc = 7, ud = 500\<rparr>
                         else if g = 200 then \<lparr>frealloc = 8, ud = 600\<rparr>
                         else \<lparr>frealloc = nullptr, ud = nullptr\<rparr>),
         host = 1000,
         calls = []\<rparr>"

section \<open>The overflow guard\<close>

lemma unat_max_div:
  fixes sz :: "'w :: len word"
  shows "unat ((- 1) div sz) = (2 ^ LENGTH('w) - 1) div unat sz"
  by (simp add: unat_div unsigned_minus_1_eq_mask mask_eq_exp_minus_1)

lemma guard_iff_no_overflow:
  fixes n sz :: "'w :: len word"
  assumes "sz \<noteq> 0"
  shows "n \<le> (- 1) div sz \<longleftrightarrow> unat n * unat sz < 2 ^ LENGTH('w)"
proof -
  have pos: "0 < unat sz"
    using assms by (simp add: unat_gt_0)
  have "n \<le> (- 1) div sz \<longleftrightarrow> unat n \<le> (2 ^ LENGTH('w) - 1) div unat sz"
    by (simp add: word_le_nat_alt unat_max_div)
  also have "\<dots> \<longleftrightarrow> unat n * unat sz \<le> 2 ^ LENGTH('w) - 1"
    using pos by (simp add: less_eq_div_iff_mult_less_eq)
  also have "\<dots> \<longleftrightarrow> unat n * unat sz < 2 ^ LENGTH('w)"
    by (simp add: Nat.le_diff_conv2 Suc_le_eq)
  finally show ?thesis .
qed

section \<open>What one call of each member function does\<close>

lemma invoke_resolved:
  assumes "f \<noteq> nullptr" and "code w f u block osize nsize (host w) = (p, h')"
  shows "invoke f u block osize nsize w =
           (Inr p,
            w\<lparr>host := h',
              calls := calls w @
                [\<lparr>c_fn = f, c_ud = u, c_block = block, c_osize = osize, c_nsize = nsize\<rparr>]\<rparr>)"
  using assms by (simp add: invoke_def)

lemma LuaCrtAllocator_realloc_unresolved:
  assumes "l_alloc this = nullptr"
  shows "LuaCrtAllocator_realloc this block osize nsize w = (Inl bad_alloc, this, w)"
  using assms by (simp add: LuaCrtAllocator_realloc_def)

lemma LuaCrtAllocator_realloc_resolved:
  assumes "l_alloc this \<noteq> nullptr"
    and "code w (l_alloc this) (l_ud this) block osize nsize (host w) = (p, h')"
  shows "LuaCrtAllocator_realloc this block osize nsize w =
           (Inr p, this,
            w\<lparr>host := h',
              calls := calls w @
                [\<lparr>c_fn = l_alloc this, c_ud = l_ud this, c_block = block,
                  c_osize = osize, c_nsize = nsize\<rparr>]\<rparr>)"
  using assms by (simp add: LuaCrtAllocator_realloc_def invoke_resolved)

lemma InternalLuaCrtAllocator_realloc_unresolved:
  assumes "m_G this = nullptr"
  shows "InternalLuaCrtAllocator_realloc this block osize nsize w = (Inl bad_alloc, this, w)"
  using assms by (simp add: InternalLuaCrtAllocator_realloc_def)

lemma InternalLuaCrtAllocator_realloc_null_callback:
  assumes "m_G this \<noteq> nullptr" and "frealloc (gstates w (m_G this)) = nullptr"
  shows "InternalLuaCrtAllocator_realloc this block osize nsize w =
           (Inl null_function_call, this, w)"
  using assms by (simp add: InternalLuaCrtAllocator_realloc_def invoke_def)

lemma InternalLuaCrtAllocator_realloc_resolved:
  assumes "m_G this \<noteq> nullptr" and "frealloc (gstates w (m_G this)) \<noteq> nullptr"
    and "code w (frealloc (gstates w (m_G this))) (ud (gstates w (m_G this)))
           block osize nsize (host w) = (p, h')"
  shows "InternalLuaCrtAllocator_realloc this block osize nsize w =
           (Inr p, this,
            w\<lparr>host := h',
              calls := calls w @
                [\<lparr>c_fn = frealloc (gstates w (m_G this)), c_ud = ud (gstates w (m_G this)),
                  c_block = block, c_osize = osize, c_nsize = nsize\<rparr>]\<rparr>)"
  using assms by (simp add: InternalLuaCrtAllocator_realloc_def invoke_resolved)

lemma LuaCrtAllocator_allocate_guard_fails:
  assumes "\<not> n \<le> (- 1) div sz"
  shows "LuaCrtAllocator_allocate sz this n w = (Inl bad_alloc, this, w)"
  using assms by (simp add: LuaCrtAllocator_allocate_def)

lemma LuaCrtAllocator_allocate_unresolved:
  assumes "l_alloc this = nullptr"
  shows "LuaCrtAllocator_allocate sz this n w = (Inl bad_alloc, this, w)"
  using assms by (simp add: LuaCrtAllocator_allocate_def LuaCrtAllocator_realloc_unresolved)

lemma LuaCrtAllocator_allocate_resolved:
  assumes "n \<le> (- 1) div sz" and "l_alloc this \<noteq> nullptr"
    and "code w (l_alloc this) (l_ud this) nullptr 0 (n * sz) (host w) = (p, h')"
  shows "LuaCrtAllocator_allocate sz this n w =
           (if p = nullptr then Inl bad_alloc else Inr p, this,
            w\<lparr>host := h',
              calls := calls w @
                [\<lparr>c_fn = l_alloc this, c_ud = l_ud this, c_block = nullptr,
                  c_osize = 0, c_nsize = n * sz\<rparr>]\<rparr>)"
  using assms(1)
  by (simp add: LuaCrtAllocator_allocate_def LuaCrtAllocator_realloc_resolved [OF assms(2,3)])

lemma InternalLuaCrtAllocator_allocate_guard_fails:
  assumes "\<not> n \<le> (- 1) div sz"
  shows "InternalLuaCrtAllocator_allocate sz this n w = (Inl bad_alloc, this, w)"
  using assms by (simp add: InternalLuaCrtAllocator_allocate_def)

lemma InternalLuaCrtAllocator_allocate_unresolved:
  assumes "m_G this = nullptr"
  shows "InternalLuaCrtAllocator_allocate sz this n w = (Inl bad_alloc, this, w)"
  using assms
  by (simp add: InternalLuaCrtAllocator_allocate_def InternalLuaCrtAllocator_realloc_unresolved)

lemma InternalLuaCrtAllocator_allocate_null_callback:
  assumes "n \<le> (- 1) div sz" and "m_G this \<noteq> nullptr"
    and "frealloc (gstates w (m_G this)) = nullptr"
  shows "InternalLuaCrtAllocator_allocate sz this n w = (Inl null_function_call, this, w)"
  using assms(1)
  by (simp add: InternalLuaCrtAllocator_allocate_def
      InternalLuaCrtAllocator_realloc_null_callback [OF assms(2,3)])

lemma InternalLuaCrtAllocator_allocate_resolved:
  assumes "n \<le> (- 1) div sz" and "m_G this \<noteq> nullptr"
    and "frealloc (gstates w (m_G this)) \<noteq> nullptr"
    and "code w (frealloc (gstates w (m_G this))) (ud (gstates w (m_G this)))
           nullptr 0 (n * sz) (host w) = (p, h')"
  shows "InternalLuaCrtAllocator_allocate sz this n w =
           (if p = nullptr then Inl bad_alloc else Inr p, this,
            w\<lparr>host := h',
              calls := calls w @
                [\<lparr>c_fn = frealloc (gstates w (m_G this)), c_ud = ud (gstates w (m_G this)),
                  c_block = nullptr, c_osize = 0, c_nsize = n * sz\<rparr>]\<rparr>)"
  using assms(1)
  by (simp add: InternalLuaCrtAllocator_allocate_def
      InternalLuaCrtAllocator_realloc_resolved [OF assms(2,3,4)])

lemma LuaCrtAllocator_deallocate_unresolved:
  assumes "l_alloc this = nullptr"
  shows "LuaCrtAllocator_deallocate ne sz this p n w =
           (Inl (if ne then std_terminate else bad_alloc), this, w)"
  using assms
  by (simp add: LuaCrtAllocator_deallocate_def LuaCrtAllocator_realloc_unresolved
      LUA_ALLOC_NOEXCEPT_def)

lemma LuaCrtAllocator_deallocate_resolved:
  assumes "l_alloc this \<noteq> nullptr"
    and "code w (l_alloc this) (l_ud this) p n 0 (host w) = (q, h')"
  shows "LuaCrtAllocator_deallocate ne sz this p n w =
           (Inr (), this,
            w\<lparr>host := h',
              calls := calls w @
                [\<lparr>c_fn = l_alloc this, c_ud = l_ud this, c_block = p,
                  c_osize = n, c_nsize = 0\<rparr>]\<rparr>)"
  by (simp add: LuaCrtAllocator_deallocate_def LuaCrtAllocator_realloc_resolved [OF assms])

lemma InternalLuaCrtAllocator_deallocate_resolved:
  assumes "m_G this \<noteq> nullptr" and "frealloc (gstates w (m_G this)) \<noteq> nullptr"
    and "code w (frealloc (gstates w (m_G this))) (ud (gstates w (m_G this)))
           p n 0 (host w) = (q, h')"
  shows "InternalLuaCrtAllocator_deallocate ne sz this p n w =
           (Inr (), this,
            w\<lparr>host := h',
              calls := calls w @
                [\<lparr>c_fn = frealloc (gstates w (m_G this)), c_ud = ud (gstates w (m_G this)),
                  c_block = p, c_osize = n, c_nsize = 0\<rparr>]\<rparr>)"
  by (simp add: InternalLuaCrtAllocator_deallocate_def
      InternalLuaCrtAllocator_realloc_resolved [OF assms])

section \<open>The claims\<close>

text \<open>
  C3. When \<open>n * sizeof(T)\<close> does not fit the size type, \<open>allocate(n)\<close> of either adapter throws
  \<^verbatim>\<open>std::bad_alloc\<close> and leaves the world as it was, so the log of invocations gains
  nothing. The test that finds the overflow is the guard \<open>n \<le> max / sizeof(T)\<close>, which is
  false here; the product is not looked at.
\<close>

theorem allocate_overflow_raises_without_invocation:
  fixes n sz :: "'w :: len word" and w :: "('w, 'h) world"
  assumes "2 ^ LENGTH('w) \<le> unat n * unat sz"
  shows "\<not> n \<le> (- 1) div sz
       \<and> LuaCrtAllocator_allocate sz this n w = (Inl bad_alloc, this, w)
       \<and> InternalLuaCrtAllocator_allocate sz that n w = (Inl bad_alloc, that, w)"
proof -
  have "sz \<noteq> 0"
    using assms by auto
  then have g: "\<not> n \<le> (- 1) div sz"
    using assms by (simp add: guard_iff_no_overflow)
  show ?thesis
    using g
    by (simp add: LuaCrtAllocator_allocate_guard_fails
        InternalLuaCrtAllocator_allocate_guard_fails)
qed

theorem allocate_overflow_raises_without_invocation_witness:
  "(2 :: nat) ^ LENGTH(64) \<le> unat (2 ^ 62 :: 64 word) * unat (4 :: 64 word)
   \<and> \<not> (2 ^ 62 :: 64 word) \<le> (- 1) div 4
   \<and> LuaCrtAllocator_allocate 4 (LuaCrtAllocator_of_state 11 w0) (2 ^ 62) w0 =
       (Inl bad_alloc, LuaCrtAllocator_of_state 11 w0, w0)
   \<and> InternalLuaCrtAllocator_allocate 4 (InternalLuaCrtAllocator_of_state 11 w0) (2 ^ 62) w0 =
       (Inl bad_alloc, InternalLuaCrtAllocator_of_state 11 w0, w0)
   \<and> calls w0 = []"
proof -
  have h: "(2 :: nat) ^ LENGTH(64) \<le> unat (2 ^ 62 :: 64 word) * unat (4 :: 64 word)"
    by simp
  have "calls w0 = []"
    by (simp add: w0_def)
  then show ?thesis
    using h allocate_overflow_raises_without_invocation [OF h,
        of "LuaCrtAllocator_of_state 11 w0" w0 "InternalLuaCrtAllocator_of_state 11 w0"]
    by blast
qed

text \<open>
  C5. When \<open>n * sizeof(T)\<close> fits the size type (and \<open>sizeof(T)\<close> is not 0, as no size of a
  type is) and the resolved callback is not null and returns a block \<open>p\<close> that is not null
  for the request, \<open>allocate(n)\<close> returns \<open>p\<close>, and the log gains exactly the one invocation
  \<open>(opaque, null, 0, n * sizeof(T))\<close> of that callback. This holds for the caching adapter,
  whose callback and opaque pointer are its two members, and for the direct adapter, whose
  callback and opaque pointer are those of the record it points to.
\<close>

theorem allocate_success_one_invocation:
  fixes n sz :: "'w :: len word" and w :: "('w, 'h) world"
  assumes "sz \<noteq> 0" and "unat n * unat sz < 2 ^ LENGTH('w)" and "p \<noteq> nullptr"
  shows "(l_alloc this \<noteq> nullptr \<longrightarrow>
          code w (l_alloc this) (l_ud this) nullptr 0 (n * sz) (host w) = (p, h') \<longrightarrow>
          LuaCrtAllocator_allocate sz this n w =
            (Inr p, this,
             w\<lparr>host := h',
               calls := calls w @
                 [\<lparr>c_fn = l_alloc this, c_ud = l_ud this, c_block = nullptr,
                   c_osize = 0, c_nsize = n * sz\<rparr>]\<rparr>))
       \<and> (m_G that \<noteq> nullptr \<longrightarrow> frealloc (gstates w (m_G that)) \<noteq> nullptr \<longrightarrow>
          code w (frealloc (gstates w (m_G that))) (ud (gstates w (m_G that)))
            nullptr 0 (n * sz) (host w) = (p, h') \<longrightarrow>
          InternalLuaCrtAllocator_allocate sz that n w =
            (Inr p, that,
             w\<lparr>host := h',
               calls := calls w @
                 [\<lparr>c_fn = frealloc (gstates w (m_G that)), c_ud = ud (gstates w (m_G that)),
                   c_block = nullptr, c_osize = 0, c_nsize = n * sz\<rparr>]\<rparr>))"
proof -
  have g: "n \<le> (- 1) div sz"
    using assms(1,2) by (simp add: guard_iff_no_overflow)
  show ?thesis
    using assms(3)
    by (simp add: LuaCrtAllocator_allocate_resolved [OF g]
        InternalLuaCrtAllocator_allocate_resolved [OF g])
qed

theorem allocate_success_one_invocation_witness:
  "(4 :: 64 word) \<noteq> 0 \<and> unat (10 :: 64 word) * unat (4 :: 64 word) < 2 ^ LENGTH(64)
   \<and> (1001 :: nat) \<noteq> nullptr
   \<and> l_alloc (LuaCrtAllocator_of_state 11 w0) \<noteq> nullptr
   \<and> code w0 (l_alloc (LuaCrtAllocator_of_state 11 w0)) (l_ud (LuaCrtAllocator_of_state 11 w0))
        nullptr 0 (10 * 4) (host w0) = (1001, 1001)
   \<and> LuaCrtAllocator_allocate 4 (LuaCrtAllocator_of_state 11 w0) 10 w0 =
       (Inr 1001, LuaCrtAllocator_of_state 11 w0,
        w0\<lparr>host := 1001,
           calls := calls w0 @
             [\<lparr>c_fn = 7, c_ud = 500, c_block = nullptr, c_osize = 0, c_nsize = 40\<rparr>]\<rparr>)
   \<and> m_G (InternalLuaCrtAllocator_of_state 11 w0) \<noteq> nullptr
   \<and> frealloc (gstates w0 (m_G (InternalLuaCrtAllocator_of_state 11 w0))) \<noteq> nullptr
   \<and> InternalLuaCrtAllocator_allocate 4 (InternalLuaCrtAllocator_of_state 11 w0) 10 w0 =
       (Inr 1001, InternalLuaCrtAllocator_of_state 11 w0,
        w0\<lparr>host := 1001,
           calls := calls w0 @
             [\<lparr>c_fn = 7, c_ud = 500, c_block = nullptr, c_osize = 0, c_nsize = 40\<rparr>]\<rparr>)"
proof -
  have h1: "(4 :: 64 word) \<noteq> 0"
    by simp
  have h2: "unat (10 :: 64 word) * unat (4 :: 64 word) < 2 ^ LENGTH(64)"
    by simp
  have h3: "(1001 :: nat) \<noteq> nullptr"
    by simp
  have a: "LuaCrtAllocator_of_state 11 w0 = \<lparr>l_alloc = 7, l_ud = 500\<rparr>"
    by (simp add: LuaCrtAllocator_of_state_def lua_getallocf_def G_def w0_def)
  have b: "InternalLuaCrtAllocator_of_state 11 w0 = \<lparr>m_G = 100\<rparr>"
    by (simp add: InternalLuaCrtAllocator_of_state_def G_def w0_def)
  have g: "gstates w0 100 = \<lparr>frealloc = 7, ud = 500\<rparr>"
    by (simp add: w0_def)
  have c: "code w0 7 500 nullptr 0 (10 * 4) (host w0) = (1001, 1001)"
    by (simp add: w0_def l_std_def)
  show ?thesis
    using allocate_success_one_invocation [OF h1 h2 h3,
        of "LuaCrtAllocator_of_state 11 w0" w0 1001 "InternalLuaCrtAllocator_of_state 11 w0"]
      h2 c
    by (simp add: a b g)
qed

text \<open>
  C10. With a resolved callback that is not null, \<open>allocate(0)\<close> passes the guard whatever
  \<open>sizeof(T)\<close> is, and the log gains exactly the one invocation \<open>(opaque, null, 0, 0)\<close>. The
  call throws \<^verbatim>\<open>std::bad_alloc\<close> when the callback returns null and returns the block
  otherwise, so under a callback that returns null for every request of new size 0 it
  never succeeds. This holds for both adapters.
\<close>

theorem allocate_zero_invokes_once_and_fails_on_null:
  fixes sz :: "'w :: len word" and w :: "('w, 'h) world"
  shows "(0 :: 'w word) \<le> (- 1) div sz
       \<and> (l_alloc this \<noteq> nullptr \<longrightarrow>
          code w (l_alloc this) (l_ud this) nullptr 0 0 (host w) = (p, h') \<longrightarrow>
          LuaCrtAllocator_allocate sz this 0 w =
            (if p = nullptr then Inl bad_alloc else Inr p, this,
             w\<lparr>host := h',
               calls := calls w @
                 [\<lparr>c_fn = l_alloc this, c_ud = l_ud this, c_block = nullptr,
                   c_osize = 0, c_nsize = 0\<rparr>]\<rparr>))
       \<and> (m_G that \<noteq> nullptr \<longrightarrow> frealloc (gstates w (m_G that)) \<noteq> nullptr \<longrightarrow>
          code w (frealloc (gstates w (m_G that))) (ud (gstates w (m_G that)))
            nullptr 0 0 (host w) = (p, h') \<longrightarrow>
          InternalLuaCrtAllocator_allocate sz that 0 w =
            (if p = nullptr then Inl bad_alloc else Inr p, that,
             w\<lparr>host := h',
               calls := calls w @
                 [\<lparr>c_fn = frealloc (gstates w (m_G that)), c_ud = ud (gstates w (m_G that)),
                   c_block = nullptr, c_osize = 0, c_nsize = 0\<rparr>]\<rparr>))"
proof -
  have g: "(0 :: 'w word) \<le> (- 1) div sz"
    by simp
  have z: "(0 :: 'w word) * sz = 0"
    by simp
  show ?thesis
    using LuaCrtAllocator_allocate_resolved [OF g, where this = this and w = w and p = p and h' = h']
      InternalLuaCrtAllocator_allocate_resolved [OF g, where this = that and w = w and p = p and h' = h']
    by (simp add: g)
qed

theorem allocate_zero_invokes_once_and_fails_on_null_witness:
  "l_alloc (LuaCrtAllocator_of_state 11 w0) \<noteq> nullptr
   \<and> code w0 (l_alloc (LuaCrtAllocator_of_state 11 w0)) (l_ud (LuaCrtAllocator_of_state 11 w0))
        nullptr 0 0 (host w0) = (nullptr, 1000)
   \<and> LuaCrtAllocator_allocate 4 (LuaCrtAllocator_of_state 11 w0) 0 w0 =
       (Inl bad_alloc, LuaCrtAllocator_of_state 11 w0,
        w0\<lparr>host := 1000,
           calls := calls w0 @
             [\<lparr>c_fn = 7, c_ud = 500, c_block = nullptr, c_osize = 0, c_nsize = 0\<rparr>]\<rparr>)
   \<and> m_G (InternalLuaCrtAllocator_of_state 11 w0) \<noteq> nullptr
   \<and> frealloc (gstates w0 (m_G (InternalLuaCrtAllocator_of_state 11 w0))) \<noteq> nullptr
   \<and> InternalLuaCrtAllocator_allocate 4 (InternalLuaCrtAllocator_of_state 11 w0) 0 w0 =
       (Inl bad_alloc, InternalLuaCrtAllocator_of_state 11 w0,
        w0\<lparr>host := 1000,
           calls := calls w0 @
             [\<lparr>c_fn = 7, c_ud = 500, c_block = nullptr, c_osize = 0, c_nsize = 0\<rparr>]\<rparr>)"
proof -
  have a: "LuaCrtAllocator_of_state 11 w0 = \<lparr>l_alloc = 7, l_ud = 500\<rparr>"
    by (simp add: LuaCrtAllocator_of_state_def lua_getallocf_def G_def w0_def)
  have b: "InternalLuaCrtAllocator_of_state 11 w0 = \<lparr>m_G = 100\<rparr>"
    by (simp add: InternalLuaCrtAllocator_of_state_def G_def w0_def)
  have g: "gstates w0 100 = \<lparr>frealloc = 7, ud = 500\<rparr>"
    by (simp add: w0_def)
  have c: "code w0 7 500 nullptr 0 0 (host w0) = (nullptr, 1000)"
    by (simp add: w0_def l_std_def)
  show ?thesis
    using allocate_zero_invokes_once_and_fails_on_null
        [of 4 "LuaCrtAllocator_of_state 11 w0" w0 nullptr 1000
          "InternalLuaCrtAllocator_of_state 11 w0"] c
    by (simp add: a b g)
qed

text \<open>
  C8. The equality operator of two caching adapters, and of two direct adapters, is true,
  and the inequality operator is false, whatever the two element types are and whatever the
  two adapters hold.
\<close>

theorem adapters_of_one_kind_always_equal:
  "LuaCrtAllocator_eq szT szU a b \<and> \<not> LuaCrtAllocator_neq szT szU a b
   \<and> InternalLuaCrtAllocator_eq szT szU c d \<and> \<not> InternalLuaCrtAllocator_neq szT szU c d"
  by (simp add: LuaCrtAllocator_eq_def LuaCrtAllocator_neq_def
      InternalLuaCrtAllocator_eq_def InternalLuaCrtAllocator_neq_def)

text \<open>
  C9. \<open>allocate\<close> and \<open>deallocate\<close> leave the adapter as it was, whether they succeed or
  fail: the two cached members of a caching adapter and the record address of a direct
  adapter are the same after the call as before it. The members of a caching adapter are
  written by the constructor from a host handle and by \<open>Validate\<close>, both of which store the
  pair that the host resolves to.
\<close>

theorem allocate_deallocate_keep_adapter:
  "fst (snd (LuaCrtAllocator_allocate sz this n w)) = this
   \<and> fst (snd (LuaCrtAllocator_deallocate ne sz this p n w)) = this
   \<and> fst (snd (InternalLuaCrtAllocator_allocate sz that n w)) = that
   \<and> fst (snd (InternalLuaCrtAllocator_deallocate ne sz that p n w)) = that
   \<and> (l_alloc (LuaCrtAllocator_of_state L w), l_ud (LuaCrtAllocator_of_state L w)) =
       lua_getallocf L w
   \<and> (l_alloc (LuaCrtAllocator_Validate this L w), l_ud (LuaCrtAllocator_Validate this L w)) =
       lua_getallocf L w"
proof -
  have r1: "fst (snd (LuaCrtAllocator_realloc this block osize nsize w)) = this"
    for block and osize nsize :: "'a word"
    by (simp add: LuaCrtAllocator_realloc_def split: prod.splits)
  have r2: "fst (snd (InternalLuaCrtAllocator_realloc that block osize nsize w)) = that"
    for block and osize nsize :: "'a word"
    by (simp add: InternalLuaCrtAllocator_realloc_def split: prod.splits)
  have a1: "fst (snd (LuaCrtAllocator_allocate sz this n w)) = this"
    using r1 [of nullptr 0 "n * sz"]
    by (auto simp: LuaCrtAllocator_allocate_def split: prod.splits sum.splits)
  have d1: "fst (snd (LuaCrtAllocator_deallocate ne sz this p n w)) = this"
    using r1 [of p n 0]
    by (auto simp: LuaCrtAllocator_deallocate_def split: prod.splits sum.splits)
  have a2: "fst (snd (InternalLuaCrtAllocator_allocate sz that n w)) = that"
    using r2 [of nullptr 0 "n * sz"]
    by (auto simp: InternalLuaCrtAllocator_allocate_def split: prod.splits sum.splits)
  have d2: "fst (snd (InternalLuaCrtAllocator_deallocate ne sz that p n w)) = that"
    using r2 [of p n 0]
    by (auto simp: InternalLuaCrtAllocator_deallocate_def split: prod.splits sum.splits)
  have c: "(l_alloc (LuaCrtAllocator_of_state L w), l_ud (LuaCrtAllocator_of_state L w)) =
       lua_getallocf L w"
    by (simp add: LuaCrtAllocator_of_state_def split: prod.splits)
  have v: "(l_alloc (LuaCrtAllocator_Validate this L w),
        l_ud (LuaCrtAllocator_Validate this L w)) = lua_getallocf L w"
    by (simp add: LuaCrtAllocator_Validate_def split: prod.splits)
  show ?thesis
    using a1 d1 a2 d2 c v by blast
qed

text \<open>
  C6. Take a caching adapter constructed from the handle \<open>L1\<close>, and call \<open>Validate\<close> with a
  handle \<open>L2\<close> that resolves to another (callback, opaque pointer) pair, whose callback is not
  null. The adapter that \<open>Validate\<close> returns, which is the adapter itself after the call, holds
  the pair of \<open>L2\<close> in its two members. An \<open>allocate(n)\<close> on it that passes the guard, in any
  later world, leaves the adapter as it is and makes exactly one invocation, of the callback
  of \<open>L2\<close> with the opaque pointer of \<open>L2\<close>, which is not the pair of \<open>L1\<close>.
\<close>

theorem Validate_redirects_allocate:
  fixes n sz :: "'w :: len word" and w1 w2 w3 :: "('w, 'h) world"
  assumes "lua_getallocf L2 w2 \<noteq> lua_getallocf L1 w1"
    and "fst (lua_getallocf L2 w2) \<noteq> nullptr"
    and "n \<le> (- 1) div sz"
  defines "v \<equiv> LuaCrtAllocator_Validate (LuaCrtAllocator_of_state L1 w1) L2 w2"
  shows "(l_alloc v, l_ud v) = lua_getallocf L2 w2
       \<and> fst (snd (LuaCrtAllocator_allocate sz v n w3)) = v
       \<and> calls (snd (snd (LuaCrtAllocator_allocate sz v n w3))) =
           calls w3 @
             [\<lparr>c_fn = fst (lua_getallocf L2 w2), c_ud = snd (lua_getallocf L2 w2),
               c_block = nullptr, c_osize = 0, c_nsize = n * sz\<rparr>]
       \<and> (c_fn (last (calls (snd (snd (LuaCrtAllocator_allocate sz v n w3))))),
          c_ud (last (calls (snd (snd (LuaCrtAllocator_allocate sz v n w3)))))) \<noteq>
           lua_getallocf L1 w1"
proof -
  have fields: "l_alloc v = fst (lua_getallocf L2 w2)" "l_ud v = snd (lua_getallocf L2 w2)"
    by (simp_all add: v_def LuaCrtAllocator_Validate_def split: prod.splits)
  have resolved: "l_alloc v \<noteq> nullptr"
    using assms(2) by (simp add: fields)
  obtain p h' where run: "code w3 (l_alloc v) (l_ud v) nullptr 0 (n * sz) (host w3) = (p, h')"
    by (cases "code w3 (l_alloc v) (l_ud v) nullptr 0 (n * sz) (host w3)") blast
  note step = LuaCrtAllocator_allocate_resolved [OF assms(3) resolved run]
  have pair: "(l_alloc v, l_ud v) = lua_getallocf L2 w2"
    by (simp add: fields)
  have same: "fst (snd (LuaCrtAllocator_allocate sz v n w3)) = v"
    by (simp add: step)
  have log: "calls (snd (snd (LuaCrtAllocator_allocate sz v n w3))) =
      calls w3 @
        [\<lparr>c_fn = fst (lua_getallocf L2 w2), c_ud = snd (lua_getallocf L2 w2),
          c_block = nullptr, c_osize = 0, c_nsize = n * sz\<rparr>]"
    by (simp add: step fields)
  have other: "(c_fn (last (calls (snd (snd (LuaCrtAllocator_allocate sz v n w3))))),
      c_ud (last (calls (snd (snd (LuaCrtAllocator_allocate sz v n w3)))))) \<noteq>
        lua_getallocf L1 w1"
    using assms(1) by (simp add: log)
  show ?thesis
    using pair same log other by blast
qed

theorem Validate_redirects_allocate_witness:
  "lua_getallocf 12 w0 \<noteq> lua_getallocf 11 w0
   \<and> lua_getallocf 11 w0 = (7, 500)
   \<and> fst (lua_getallocf 12 w0) \<noteq> nullptr
   \<and> (10 :: 64 word) \<le> (- 1) div 4
   \<and> LuaCrtAllocator_Validate (LuaCrtAllocator_of_state 11 w0) 12 w0 =
       \<lparr>l_alloc = 8, l_ud = 600\<rparr>
   \<and> calls (snd (snd (LuaCrtAllocator_allocate 4
        (LuaCrtAllocator_Validate (LuaCrtAllocator_of_state 11 w0) 12 w0) 10 w0))) =
       [\<lparr>c_fn = 8, c_ud = 600, c_block = nullptr, c_osize = 0, c_nsize = 40\<rparr>]"
proof -
  have g1: "lua_getallocf 11 w0 = (7, 500)"
    by (simp add: lua_getallocf_def G_def w0_def)
  have g2: "lua_getallocf 12 w0 = (8, 600)"
    by (simp add: lua_getallocf_def G_def w0_def)
  have h1: "lua_getallocf 12 w0 \<noteq> lua_getallocf 11 w0"
    by (simp add: g1 g2)
  have h2: "fst (lua_getallocf 12 w0) \<noteq> nullptr"
    by (simp add: g2)
  have h3: "(10 :: 64 word) \<le> (- 1) div 4"
    by simp
  have v: "LuaCrtAllocator_Validate (LuaCrtAllocator_of_state 11 w0) 12 w0 =
      \<lparr>l_alloc = 8, l_ud = 600\<rparr>"
    by (simp add: LuaCrtAllocator_Validate_def LuaCrtAllocator_of_state_def g1 g2)
  have e: "calls w0 = []"
    by (simp add: w0_def)
  have "calls (snd (snd (LuaCrtAllocator_allocate 4
        (LuaCrtAllocator_Validate (LuaCrtAllocator_of_state 11 w0) 12 w0) 10 w0))) =
       [\<lparr>c_fn = 8, c_ud = 600, c_block = nullptr, c_osize = 0, c_nsize = 40\<rparr>]"
    using Validate_redirects_allocate [OF h1 h2 h3, of w0]
    by (simp add: g2 e)
  then show ?thesis
    using g1 h1 h2 h3 v by blast
qed

text \<open>
  C7. A direct adapter reads the callback and the opaque pointer from the record it points
  to, in the world of the call. Take a direct adapter whose record address is not null and
  whose record holds a callback that is not null, and an \<open>allocate(n)\<close> that passes the guard.
  After the call, let the fields of the record be overwritten with another callback \<open>f2\<close>
  (not null) and opaque pointer \<open>u2\<close>, the adapter being left alone. A second \<open>allocate(n)\<close>
  on the adapter then invokes \<open>f2\<close> with \<open>u2\<close>: the log holds the invocation of the first
  callback followed by that of \<open>f2\<close>. A \<open>deallocate(p, n)\<close> in that world invokes \<open>f2\<close> with
  \<open>u2\<close> as well.
\<close>

theorem direct_adapter_follows_live_record:
  fixes n sz :: "'w :: len word" and w :: "('w, 'h) world" and f2 :: lua_Alloc and u2 :: ptr
  assumes "m_G this \<noteq> nullptr"
    and "frealloc (gstates w (m_G this)) \<noteq> nullptr"
    and "f2 \<noteq> nullptr"
    and "n \<le> (- 1) div sz"
  defines "first \<equiv> InternalLuaCrtAllocator_allocate sz this n w"
  defines "w2 \<equiv> (snd (snd first))
      \<lparr>gstates := (gstates (snd (snd first))) (m_G this := \<lparr>frealloc = f2, ud = u2\<rparr>)\<rparr>"
  shows "calls (snd (snd (InternalLuaCrtAllocator_allocate sz (fst (snd first)) n w2))) =
           calls w @
             [\<lparr>c_fn = frealloc (gstates w (m_G this)), c_ud = ud (gstates w (m_G this)),
               c_block = nullptr, c_osize = 0, c_nsize = n * sz\<rparr>,
              \<lparr>c_fn = f2, c_ud = u2, c_block = nullptr, c_osize = 0, c_nsize = n * sz\<rparr>]
       \<and> calls (snd (snd (InternalLuaCrtAllocator_deallocate ne sz (fst (snd first)) p n w2))) =
           calls w2 @ [\<lparr>c_fn = f2, c_ud = u2, c_block = p, c_osize = n, c_nsize = 0\<rparr>]"
proof -
  obtain p1 h1 where run1:
    "code w (frealloc (gstates w (m_G this))) (ud (gstates w (m_G this)))
       nullptr 0 (n * sz) (host w) = (p1, h1)"
    by (cases "code w (frealloc (gstates w (m_G this))) (ud (gstates w (m_G this)))
       nullptr 0 (n * sz) (host w)") blast
  note step1 = InternalLuaCrtAllocator_allocate_resolved [OF assms(4) assms(1) assms(2) run1]
  have this1: "fst (snd first) = this"
    by (simp add: first_def step1)
  have log1: "calls (snd (snd first)) =
      calls w @
        [\<lparr>c_fn = frealloc (gstates w (m_G this)), c_ud = ud (gstates w (m_G this)),
          c_block = nullptr, c_osize = 0, c_nsize = n * sz\<rparr>]"
    by (simp add: first_def step1)
  have rec2: "gstates w2 (m_G this) = \<lparr>frealloc = f2, ud = u2\<rparr>"
    by (simp add: w2_def)
  have log2: "calls w2 = calls (snd (snd first))"
    by (simp add: w2_def)
  have res2: "frealloc (gstates w2 (m_G this)) \<noteq> nullptr"
    using assms(3) by (simp add: rec2)
  obtain p2 h2 where run2:
    "code w2 (frealloc (gstates w2 (m_G this))) (ud (gstates w2 (m_G this)))
       nullptr 0 (n * sz) (host w2) = (p2, h2)"
    by (cases "code w2 (frealloc (gstates w2 (m_G this))) (ud (gstates w2 (m_G this)))
       nullptr 0 (n * sz) (host w2)") blast
  note step2 = InternalLuaCrtAllocator_allocate_resolved [OF assms(4) assms(1) res2 run2]
  obtain q h3 where run3:
    "code w2 (frealloc (gstates w2 (m_G this))) (ud (gstates w2 (m_G this)))
       p n 0 (host w2) = (q, h3)"
    by (cases "code w2 (frealloc (gstates w2 (m_G this))) (ud (gstates w2 (m_G this)))
       p n 0 (host w2)") blast
  note step3 = InternalLuaCrtAllocator_deallocate_resolved [OF assms(1) res2 run3]
  have second: "calls (snd (snd (InternalLuaCrtAllocator_allocate sz this n w2))) =
      calls w2 @ [\<lparr>c_fn = f2, c_ud = u2, c_block = nullptr, c_osize = 0, c_nsize = n * sz\<rparr>]"
    by (simp add: step2 rec2)
  have free: "calls (snd (snd (InternalLuaCrtAllocator_deallocate ne sz this p n w2))) =
      calls w2 @ [\<lparr>c_fn = f2, c_ud = u2, c_block = p, c_osize = n, c_nsize = 0\<rparr>]"
    by (simp add: step3 rec2)
  show ?thesis
    using second free by (simp add: this1 log2 log1)
qed

theorem direct_adapter_follows_live_record_witness:
  "m_G (InternalLuaCrtAllocator_of_state 11 w0) \<noteq> nullptr
   \<and> frealloc (gstates w0 (m_G (InternalLuaCrtAllocator_of_state 11 w0))) \<noteq> nullptr
   \<and> (8 :: nat) \<noteq> nullptr
   \<and> (10 :: 64 word) \<le> (- 1) div 4
   \<and> calls (snd (snd (InternalLuaCrtAllocator_allocate 4
        (fst (snd (InternalLuaCrtAllocator_allocate 4
           (InternalLuaCrtAllocator_of_state 11 w0) 10 w0))) 10
        ((snd (snd (InternalLuaCrtAllocator_allocate 4
           (InternalLuaCrtAllocator_of_state 11 w0) 10 w0)))
         \<lparr>gstates := (gstates (snd (snd (InternalLuaCrtAllocator_allocate 4
              (InternalLuaCrtAllocator_of_state 11 w0) 10 w0))))
            (m_G (InternalLuaCrtAllocator_of_state 11 w0) := \<lparr>frealloc = 8, ud = 600\<rparr>)\<rparr>)))) =
       [\<lparr>c_fn = 7, c_ud = 500, c_block = nullptr, c_osize = 0, c_nsize = 40\<rparr>,
        \<lparr>c_fn = 8, c_ud = 600, c_block = nullptr, c_osize = 0, c_nsize = 40\<rparr>]"
proof -
  have b: "InternalLuaCrtAllocator_of_state 11 w0 = \<lparr>m_G = 100\<rparr>"
    by (simp add: InternalLuaCrtAllocator_of_state_def G_def w0_def)
  have g: "gstates w0 100 = \<lparr>frealloc = 7, ud = 500\<rparr>"
    by (simp add: w0_def)
  have e: "calls w0 = []"
    by (simp add: w0_def)
  have h1: "m_G (InternalLuaCrtAllocator_of_state 11 w0) \<noteq> nullptr"
    by (simp add: b)
  have h2: "frealloc (gstates w0 (m_G (InternalLuaCrtAllocator_of_state 11 w0))) \<noteq> nullptr"
    by (simp add: b g)
  have h3: "(8 :: nat) \<noteq> nullptr"
    by simp
  have h4: "(10 :: 64 word) \<le> (- 1) div 4"
    by simp
  note t = direct_adapter_follows_live_record [OF h1 h2 h3 h4, of 600 True 1001, THEN conjunct1]
  show ?thesis
    using h1 h2 h3 h4 t by (simp add: b g e)
qed

text \<open>
  C1. \<open>deallocate(p, 10)\<close> on elements of 4 bytes, with a resolved callback that is not
  null, returns normally and makes exactly one invocation, whose block is \<open>p\<close> and whose new
  size is 0, for the caching and for the direct adapter. The old size of that invocation is
  the element count 10, which is not the byte size \<open>10 * 4 = 40\<close>.
\<close>

theorem deallocate_old_size_is_element_count:
  "LuaCrtAllocator_deallocate True 4 (LuaCrtAllocator_of_state 11 w0) 1001 10 w0 =
     (Inr (), LuaCrtAllocator_of_state 11 w0,
      w0\<lparr>calls := [\<lparr>c_fn = 7, c_ud = 500, c_block = 1001, c_osize = 10, c_nsize = 0\<rparr>]\<rparr>)
   \<and> InternalLuaCrtAllocator_deallocate True 4 (InternalLuaCrtAllocator_of_state 11 w0) 1001 10 w0 =
     (Inr (), InternalLuaCrtAllocator_of_state 11 w0,
      w0\<lparr>calls := [\<lparr>c_fn = 7, c_ud = 500, c_block = 1001, c_osize = 10, c_nsize = 0\<rparr>]\<rparr>)
   \<and> (10 :: 64 word) \<noteq> 10 * 4"
proof -
  have a: "LuaCrtAllocator_of_state 11 w0 = \<lparr>l_alloc = 7, l_ud = 500\<rparr>"
    by (simp add: LuaCrtAllocator_of_state_def lua_getallocf_def G_def w0_def)
  have b: "InternalLuaCrtAllocator_of_state 11 w0 = \<lparr>m_G = 100\<rparr>"
    by (simp add: InternalLuaCrtAllocator_of_state_def G_def w0_def)
  have g: "gstates w0 100 = \<lparr>frealloc = 7, ud = 500\<rparr>"
    by (simp add: w0_def)
  have c: "code w0 7 500 1001 (10 :: 64 word) 0 (host w0) = (nullptr, host w0)"
    by (simp add: w0_def l_std_def)
  have e: "calls w0 = []"
    by (simp add: w0_def)
  have d1: "LuaCrtAllocator_deallocate True 4 \<lparr>l_alloc = 7, l_ud = 500\<rparr> 1001 10 w0 =
      (Inr (), \<lparr>l_alloc = 7, l_ud = 500\<rparr>,
       w0\<lparr>calls := [\<lparr>c_fn = 7, c_ud = 500, c_block = 1001, c_osize = 10, c_nsize = 0\<rparr>]\<rparr>)"
    using LuaCrtAllocator_deallocate_resolved
        [of "\<lparr>l_alloc = 7, l_ud = 500\<rparr>" w0 1001 10 nullptr "host w0" True 4] c
    by (simp add: e)
  have d2: "InternalLuaCrtAllocator_deallocate True 4 \<lparr>m_G = 100\<rparr> 1001 10 w0 =
      (Inr (), \<lparr>m_G = 100\<rparr>,
       w0\<lparr>calls := [\<lparr>c_fn = 7, c_ud = 500, c_block = 1001, c_osize = 10, c_nsize = 0\<rparr>]\<rparr>)"
    using InternalLuaCrtAllocator_deallocate_resolved
        [of "\<lparr>m_G = 100\<rparr>" w0 1001 10 nullptr "host w0" True 4] c
    by (simp add: g e)
  have ne: "(10 :: 64 word) \<noteq> 10 * 4"
    by simp
  show ?thesis
    using d1 d2 ne by (simp only: a b) simp
qed

text \<open>
  C2, as stated, fails: \<open>deallocate\<close> on a default-constructed caching adapter, whose cached
  callback is null, makes no invocation at all and ends in an error. The world after the
  call is the world before it, with its empty log; the outcome is \<^verbatim>\<open>std::terminate\<close> where
  \<open>deallocate\<close> is \<^verbatim>\<open>noexcept\<close> and the thrown \<^verbatim>\<open>std::bad_alloc\<close> where it is not.
\<close>

theorem deallocate_null_callback_counterexample:
  "LuaCrtAllocator_deallocate True 4 LuaCrtAllocator_default 1001 10 w0 =
     (Inl std_terminate, LuaCrtAllocator_default, w0)
   \<and> LuaCrtAllocator_deallocate False 4 LuaCrtAllocator_default 1001 10 w0 =
     (Inl bad_alloc, LuaCrtAllocator_default, w0)
   \<and> l_alloc LuaCrtAllocator_default = nullptr
   \<and> calls w0 = []"
  by (simp add: LuaCrtAllocator_deallocate_def LuaCrtAllocator_realloc_def
      LuaCrtAllocator_default_def LUA_ALLOC_NOEXCEPT_def w0_def)

text \<open>
  C2, amended. For every caching adapter: when the cached callback is null,
  \<open>deallocate(p, n)\<close> invokes nothing and leaves the adapter and the world as they were; the
  guard of \<open>realloc\<close> throws \<^verbatim>\<open>std::bad_alloc\<close>, which ends in \<^verbatim>\<open>std::terminate\<close> where
  \<open>deallocate\<close> is \<^verbatim>\<open>noexcept\<close> and reaches the caller where it is not. When the cached
  callback is not null, \<open>deallocate(p, n)\<close> invokes it exactly once and returns normally.
\<close>

theorem deallocate_guarded_by_realloc:
  fixes n sz :: "'w :: len word" and w :: "('w, 'h) world"
  shows "(l_alloc this = nullptr \<longrightarrow>
          LuaCrtAllocator_deallocate ne sz this p n w =
            (Inl (if ne then std_terminate else bad_alloc), this, w))
       \<and> (l_alloc this \<noteq> nullptr \<longrightarrow>
          fst (LuaCrtAllocator_deallocate ne sz this p n w) = Inr ()
          \<and> calls (snd (snd (LuaCrtAllocator_deallocate ne sz this p n w))) =
              calls w @
                [\<lparr>c_fn = l_alloc this, c_ud = l_ud this, c_block = p,
                  c_osize = n, c_nsize = 0\<rparr>])"
proof (cases "l_alloc this = nullptr")
  case True
  then show ?thesis
    by (simp add: LuaCrtAllocator_deallocate_unresolved)
next
  case False
  obtain q h' where run: "code w (l_alloc this) (l_ud this) p n 0 (host w) = (q, h')"
    by (cases "code w (l_alloc this) (l_ud this) p n 0 (host w)") blast
  show ?thesis
    using False by (simp add: LuaCrtAllocator_deallocate_resolved [OF False run])
qed

theorem deallocate_guarded_by_realloc_witness:
  "l_alloc LuaCrtAllocator_default = nullptr
   \<and> LuaCrtAllocator_deallocate True 4 LuaCrtAllocator_default 1001 10 w0 =
       (Inl std_terminate, LuaCrtAllocator_default, w0)
   \<and> l_alloc (LuaCrtAllocator_of_state 11 w0) \<noteq> nullptr
   \<and> fst (LuaCrtAllocator_deallocate True 4 (LuaCrtAllocator_of_state 11 w0) 1001 10 w0) = Inr ()
   \<and> calls (snd (snd (LuaCrtAllocator_deallocate True 4
        (LuaCrtAllocator_of_state 11 w0) 1001 10 w0))) =
       [\<lparr>c_fn = 7, c_ud = 500, c_block = 1001, c_osize = 10, c_nsize = 0\<rparr>]"
proof -
  have a: "LuaCrtAllocator_of_state 11 w0 = \<lparr>l_alloc = 7, l_ud = 500\<rparr>"
    by (simp add: LuaCrtAllocator_of_state_def lua_getallocf_def G_def w0_def)
  have e: "calls w0 = []"
    by (simp add: w0_def)
  have n0: "l_alloc LuaCrtAllocator_default = nullptr"
    by (simp add: LuaCrtAllocator_default_def)
  have n1: "l_alloc (LuaCrtAllocator_of_state 11 w0) \<noteq> nullptr"
    by (simp add: a)
  show ?thesis
    using n0 n1
      deallocate_guarded_by_realloc [of LuaCrtAllocator_default True 4 1001 10 w0]
      deallocate_guarded_by_realloc [of "LuaCrtAllocator_of_state 11 w0" True 4 1001 10 w0]
    by (simp add: a e)
qed

text \<open>
  C4, as stated, fails in two places. A caching adapter with the callback \<open>l_std\<close>, which is
  not null, throws \<^verbatim>\<open>std::bad_alloc\<close> on \<open>allocate(0)\<close> of 4-byte elements: the product 0
  does not overflow, and the request that the callback answers with null is of size 0, not
  of a nonzero size. A direct adapter that points to the record at address 300, whose
  callback is null, does not throw \<^verbatim>\<open>std::bad_alloc\<close> on \<open>allocate(1)\<close>: it calls the null
  function pointer.
\<close>

theorem allocate_raises_exactly_when_counterexample:
  "fst (LuaCrtAllocator_allocate 4 (LuaCrtAllocator_of_state 11 w0) 0 w0) = Inl bad_alloc
   \<and> unat (0 :: 64 word) * unat (4 :: 64 word) < 2 ^ LENGTH(64)
   \<and> l_alloc (LuaCrtAllocator_of_state 11 w0) \<noteq> nullptr
   \<and> (0 :: 64 word) * 4 = 0
   \<and> fst (InternalLuaCrtAllocator_allocate 4 (InternalLuaCrtAllocator_of_global 300) 1 w0) =
       Inl null_function_call
   \<and> m_G (InternalLuaCrtAllocator_of_global 300) \<noteq> nullptr
   \<and> frealloc (gstates w0 (m_G (InternalLuaCrtAllocator_of_global 300))) = nullptr"
  by (simp add: LuaCrtAllocator_allocate_def LuaCrtAllocator_realloc_def
      InternalLuaCrtAllocator_allocate_def InternalLuaCrtAllocator_realloc_def invoke_def
      LuaCrtAllocator_of_state_def InternalLuaCrtAllocator_of_global_def
      lua_getallocf_def G_def w0_def l_std_def)

text \<open>
  C4, amended. With \<open>sizeof(T)\<close> not 0, \<open>allocate(n)\<close> of a caching adapter throws
  \<^verbatim>\<open>std::bad_alloc\<close> exactly when \<open>n * sizeof(T)\<close> overflows the size type, or the cached
  callback is null, or the callback returns null for the request \<open>(opaque, null, 0,
  n * sizeof(T))\<close>, whatever the size of the request, the size 0 of \<open>allocate(0)\<close> included.
  \<open>allocate(n)\<close> of a direct adapter throws \<^verbatim>\<open>std::bad_alloc\<close> exactly when the product
  overflows, or the record address of the adapter is null, or the callback of the record
  returns null for the request; this is stated for a direct adapter whose record, when its
  address is not null, holds a callback that is not null. Whenever the call does not throw
  it returns the block that the one invocation returned, and no call invokes the callback
  more than once.
\<close>

theorem allocate_raises_exactly_when:
  fixes n sz :: "'w :: len word" and w :: "('w, 'h) world"
  assumes "sz \<noteq> 0"
  shows "(fst (LuaCrtAllocator_allocate sz this n w) = Inl bad_alloc \<longleftrightarrow>
            2 ^ LENGTH('w) \<le> unat n * unat sz \<or> l_alloc this = nullptr \<or>
            fst (code w (l_alloc this) (l_ud this) nullptr 0 (n * sz) (host w)) = nullptr)
       \<and> (fst (LuaCrtAllocator_allocate sz this n w) \<noteq> Inl bad_alloc \<longrightarrow>
            fst (LuaCrtAllocator_allocate sz this n w) =
              Inr (fst (code w (l_alloc this) (l_ud this) nullptr 0 (n * sz) (host w))))
       \<and> length (calls (snd (snd (LuaCrtAllocator_allocate sz this n w)))) \<le>
            Suc (length (calls w))
       \<and> ((m_G that \<noteq> nullptr \<longrightarrow> frealloc (gstates w (m_G that)) \<noteq> nullptr) \<longrightarrow>
            (fst (InternalLuaCrtAllocator_allocate sz that n w) = Inl bad_alloc \<longleftrightarrow>
               2 ^ LENGTH('w) \<le> unat n * unat sz \<or> m_G that = nullptr \<or>
               fst (code w (frealloc (gstates w (m_G that))) (ud (gstates w (m_G that)))
                      nullptr 0 (n * sz) (host w)) = nullptr)
            \<and> (fst (InternalLuaCrtAllocator_allocate sz that n w) \<noteq> Inl bad_alloc \<longrightarrow>
                 fst (InternalLuaCrtAllocator_allocate sz that n w) =
                   Inr (fst (code w (frealloc (gstates w (m_G that))) (ud (gstates w (m_G that)))
                          nullptr 0 (n * sz) (host w)))))
       \<and> length (calls (snd (snd (InternalLuaCrtAllocator_allocate sz that n w)))) \<le>
            Suc (length (calls w))"
proof -
  note guard = guard_iff_no_overflow [OF assms, of n]
  have caching:
    "(fst (LuaCrtAllocator_allocate sz this n w) = Inl bad_alloc \<longleftrightarrow>
        2 ^ LENGTH('w) \<le> unat n * unat sz \<or> l_alloc this = nullptr \<or>
        fst (code w (l_alloc this) (l_ud this) nullptr 0 (n * sz) (host w)) = nullptr)
     \<and> (fst (LuaCrtAllocator_allocate sz this n w) \<noteq> Inl bad_alloc \<longrightarrow>
        fst (LuaCrtAllocator_allocate sz this n w) =
          Inr (fst (code w (l_alloc this) (l_ud this) nullptr 0 (n * sz) (host w))))
     \<and> length (calls (snd (snd (LuaCrtAllocator_allocate sz this n w)))) \<le>
        Suc (length (calls w))"
  proof (cases "n \<le> (- 1) div sz")
    case False
    then show ?thesis
      using guard by (simp add: LuaCrtAllocator_allocate_guard_fails)
  next
    case fits: True
    show ?thesis
    proof (cases "l_alloc this = nullptr")
      case True
      then show ?thesis
        by (simp add: LuaCrtAllocator_allocate_unresolved)
    next
      case False
      obtain p h' where run:
        "code w (l_alloc this) (l_ud this) nullptr 0 (n * sz) (host w) = (p, h')"
        by (cases "code w (l_alloc this) (l_ud this) nullptr 0 (n * sz) (host w)") blast
      show ?thesis
        using fits False guard
        by (simp add: LuaCrtAllocator_allocate_resolved [OF fits False run] run)
    qed
  qed
  have direct_log:
    "length (calls (snd (snd (InternalLuaCrtAllocator_allocate sz that n w)))) \<le>
       Suc (length (calls w))"
    by (simp add: InternalLuaCrtAllocator_allocate_def InternalLuaCrtAllocator_realloc_def
        invoke_def split: prod.splits sum.splits)
  have direct:
    "(fst (InternalLuaCrtAllocator_allocate sz that n w) = Inl bad_alloc \<longleftrightarrow>
        2 ^ LENGTH('w) \<le> unat n * unat sz \<or> m_G that = nullptr \<or>
        fst (code w (frealloc (gstates w (m_G that))) (ud (gstates w (m_G that)))
               nullptr 0 (n * sz) (host w)) = nullptr)
     \<and> (fst (InternalLuaCrtAllocator_allocate sz that n w) \<noteq> Inl bad_alloc \<longrightarrow>
          fst (InternalLuaCrtAllocator_allocate sz that n w) =
            Inr (fst (code w (frealloc (gstates w (m_G that))) (ud (gstates w (m_G that)))
                   nullptr 0 (n * sz) (host w))))"
    if live: "m_G that \<noteq> nullptr \<longrightarrow> frealloc (gstates w (m_G that)) \<noteq> nullptr"
  proof (cases "n \<le> (- 1) div sz")
    case False
    then show ?thesis
      using guard by (simp add: InternalLuaCrtAllocator_allocate_guard_fails)
  next
    case fits: True
    show ?thesis
    proof (cases "m_G that = nullptr")
      case True
      then show ?thesis
        by (simp add: InternalLuaCrtAllocator_allocate_unresolved)
    next
      case False
      then have cb: "frealloc (gstates w (m_G that)) \<noteq> nullptr"
        using live by blast
      obtain p h' where run:
        "code w (frealloc (gstates w (m_G that))) (ud (gstates w (m_G that)))
           nullptr 0 (n * sz) (host w) = (p, h')"
        by (cases "code w (frealloc (gstates w (m_G that))) (ud (gstates w (m_G that)))
           nullptr 0 (n * sz) (host w)") blast
      show ?thesis
        using fits False guard
        by (simp add: InternalLuaCrtAllocator_allocate_resolved [OF fits False cb run] run)
    qed
  qed
  have direct_if_live:
    "(m_G that \<noteq> nullptr \<longrightarrow> frealloc (gstates w (m_G that)) \<noteq> nullptr) \<longrightarrow>
       (fst (InternalLuaCrtAllocator_allocate sz that n w) = Inl bad_alloc \<longleftrightarrow>
          2 ^ LENGTH('w) \<le> unat n * unat sz \<or> m_G that = nullptr \<or>
          fst (code w (frealloc (gstates w (m_G that))) (ud (gstates w (m_G that)))
                 nullptr 0 (n * sz) (host w)) = nullptr)
       \<and> (fst (InternalLuaCrtAllocator_allocate sz that n w) \<noteq> Inl bad_alloc \<longrightarrow>
            fst (InternalLuaCrtAllocator_allocate sz that n w) =
              Inr (fst (code w (frealloc (gstates w (m_G that))) (ud (gstates w (m_G that)))
                     nullptr 0 (n * sz) (host w))))"
    by (rule impI) (rule direct)
  show ?thesis
    using caching direct_if_live direct_log
    by (elim conjE) (intro conjI, assumption+)
qed

theorem allocate_raises_exactly_when_witness:
  "(4 :: 64 word) \<noteq> 0
   \<and> fst (LuaCrtAllocator_allocate 4 (LuaCrtAllocator_of_state 11 w0) 10 w0) \<noteq> Inl bad_alloc
   \<and> fst (LuaCrtAllocator_allocate 4 (LuaCrtAllocator_of_state 11 w0) 10 w0) = Inr 1001
   \<and> length (calls (snd (snd (LuaCrtAllocator_allocate 4
        (LuaCrtAllocator_of_state 11 w0) 10 w0)))) \<le> Suc (length (calls w0))
   \<and> m_G (InternalLuaCrtAllocator_of_state 12 w0) \<noteq> nullptr
   \<and> frealloc (gstates w0 (m_G (InternalLuaCrtAllocator_of_state 12 w0))) \<noteq> nullptr
   \<and> fst (InternalLuaCrtAllocator_allocate 4 (InternalLuaCrtAllocator_of_state 12 w0) 10 w0) =
       Inl bad_alloc"
proof -
  have h: "(4 :: 64 word) \<noteq> 0"
    by simp
  have a: "LuaCrtAllocator_of_state 11 w0 = \<lparr>l_alloc = 7, l_ud = 500\<rparr>"
    by (simp add: LuaCrtAllocator_of_state_def lua_getallocf_def G_def w0_def)
  have b: "InternalLuaCrtAllocator_of_state 12 w0 = \<lparr>m_G = 200\<rparr>"
    by (simp add: InternalLuaCrtAllocator_of_state_def G_def w0_def)
  have g: "gstates w0 200 = \<lparr>frealloc = 8, ud = 600\<rparr>"
    by (simp add: w0_def)
  have c1: "code w0 7 500 nullptr 0 (40 :: 64 word) (host w0) = (1001, 1001)"
    by (simp add: w0_def l_std_def)
  have c2: "code w0 8 600 nullptr 0 (40 :: 64 word) (host w0) = (nullptr, 1000)"
    by (simp add: w0_def l_fail_def)
  have fits: "unat (10 :: 64 word) * unat (4 :: 64 word) < 2 ^ LENGTH(64)"
    by simp
  show ?thesis
    using h fits
      allocate_raises_exactly_when [OF h,
        of "LuaCrtAllocator_of_state 11 w0" 10 w0 "InternalLuaCrtAllocator_of_state 12 w0"]
    by (simp add: a b g c1 c2)
qed

end
